theory Spec2Isabelle
  imports Complex_Main
begin

section \<open>Run-time values\<close>

text \<open>
  The synthesizer is TypeScript: its interfaces are erased at run time and most of its
  object literals are cast (\<^verbatim>\<open>as any\<close>, \<^verbatim>\<open>as QualityMetrics\<close>) rather than
  checked. Interfaces whose fields the pipeline reads or writes are records below; every
  type the source declares as \<^verbatim>\<open>Record<string, any>\<close>, and every literal cast to
  \<^verbatim>\<open>any\<close>, is a value of \<open>jsval\<close>, with an object as the list of its properties in
  the order the literal writes them. A \<^verbatim>\<open>number\<close> is modelled by the real number its
  decimal literal denotes: the pipeline copies and never computes with these numbers.
\<close>

datatype jsval =
    JUndefined
  | JNum real
  | JStr string
  | JArr "jsval list"
  | JObj "(string \<times> jsval) list"

text \<open>Reading a property of an object literal; \<open>None\<close> when it is absent or the value
  is not an object.\<close>

fun js_get :: "jsval \<Rightarrow> string \<Rightarrow> jsval option" where
  "js_get (JObj kvs) k = map_of kvs k"
| "js_get _ _ = None"

text \<open>A \<^verbatim>\<open>Date\<close>, and the result of \<^verbatim>\<open>Date.now()\<close>, is a number of milliseconds.
  The pipeline reads the clock three times in one run; \<open>clock\<close> gives the readings in
  the order the run makes them.\<close>

type_synonym clock = "nat \<Rightarrow> int"

text \<open>A thrown value, as template interpolation (\<^verbatim>\<open>${error}\<close>) renders it.\<close>

type_synonym thrown = string

datatype js_error = Error string

section \<open>Data model\<close>

subsection \<open>Character ontology and instruction set (character-types.ts)\<close>

record VoiceIdentity =
  voiceType :: string
  pitch :: string
  pace :: string
  accent :: string
  emotionalRange :: "string list"
  speechPatterns :: "string list"
  voiceDNA :: string

text \<open>\<open>ontology_id\<close> and \<open>ontology_version\<close> are the fields \<^verbatim>\<open>id\<close> and
  \<^verbatim>\<open>version\<close>. The constructor reads \<^verbatim>\<open>voiceIdentity\<close> through optional chaining,
  so it may be absent: \<open>None\<close>.\<close>

record UnifiedCharacterOntology =
  ontology_id :: string
  ontology_version :: string
  createdAt :: int
  updatedAt :: int
  coreIdentity :: jsval
  psychologicalProfile :: jsval
  visualIdentity :: jsval
  voiceIdentity :: "VoiceIdentity option"
  behavioralPatterns :: jsval
  emotionalProfile :: jsval
  relationships :: "jsval list"
  backstory :: jsval
  skillsAndAbilities :: jsval

record EmotionalState =
  primary :: string
  secondary :: "string list"
  intensity :: real
  triggers :: "string list"
  physicalManifestations :: "string list"

record PerformanceInstructionSet =
  characterId :: string
  sceneContext :: jsval
  emotionalState :: EmotionalState
  physicalState :: jsval
  motivations :: "string list"
  objectives :: "string list"
  actions :: "jsval list"
  dialogue :: "jsval list"
  visualInstructions :: "jsval list"
  audioInstructions :: "jsval list"

record PerformanceMetadata =
  generationTime :: int
  modelUsed :: string
  qualityScore :: real
  consistencyScore :: real
  cost :: real
  version :: string

text \<open>The object \<^verbatim>\<open>synthesizePerformance\<close> returns. Its fields are \<^verbatim>\<open>characterId\<close>,
  \<^verbatim>\<open>timestamp\<close>, \<^verbatim>\<open>visual\<close>, \<^verbatim>\<open>audio\<close>, \<^verbatim>\<open>animation\<close> and \<^verbatim>\<open>metadata\<close>; the
  prefix keeps them apart from the fields of the same names in the other records.\<close>

record SynthesizedPerformance =
  perf_characterId :: string
  perf_timestamp :: int
  perf_visual :: jsval
  perf_audio :: jsval
  perf_animation :: jsval
  perf_metadata :: PerformanceMetadata

subsection \<open>Synchronizer interfaces\<close>

record CharacterModel =
  baseAppearance :: jsval
  baseVoice :: jsval
  baseAnimation :: jsval
  emotionalModifications :: jsval
  performanceModifications :: jsval
  consistencyParameters :: jsval

text \<open>\<open>point_synchronization_quality\<close> is the field \<^verbatim>\<open>synchronization_quality\<close> of a
  \<^verbatim>\<open>SyncPoint\<close> (\<^verbatim>\<open>QualityMetrics\<close> has one of the same name).\<close>

record SyncPoint =
  timestamp :: real
  visual_event :: jsval
  audio_event :: jsval
  animation_event :: jsval
  point_synchronization_quality :: real
  alignment_accuracy :: real

record SynchronizationData =
  sync_points :: "SyncPoint list"
  timing_alignment :: jsval
  emotional_alignment :: jsval
  performance_alignment :: jsval
  quality_alignment :: jsval
  consistency_alignment :: jsval

record QualityMetrics =
  visual_quality :: jsval
  audio_quality :: jsval
  animation_quality :: jsval
  synchronization_quality :: jsval
  overall_quality :: real
  performance_quality :: real

record ConsistencyCheck =
  character_consistency :: jsval
  emotional_consistency :: jsval
  performance_consistency :: jsval
  visual_consistency :: jsval
  audio_consistency :: jsval
  animation_consistency :: jsval
  overall_consistency :: real

text \<open>The three modality performances are the generators' \<^verbatim>\<open>as any\<close> literals, and
  \<^verbatim>\<open>final_output\<close> is built as \<^verbatim>\<open>{} as FinalPerformance\<close>: all four are \<open>jsval\<close>.\<close>

record SynchronizedPerformance =
  visual :: jsval
  audio :: jsval
  animation :: jsval
  synchronization :: SynchronizationData
  quality_metrics :: QualityMetrics
  consistency_check :: ConsistencyCheck
  final_output :: jsval

subsection \<open>Collaborators held by the synthesizer\<close>

text \<open>
  The generators and the synchronization engine are public, reassignable fields of the
  synthesizer, typed by interfaces. Of each interface the pipeline calls one method; a
  call either returns or throws, so the method is a function into \<open>thrown + _\<close>.
\<close>

record VisualGenerator =
  visual_generateVisualPerformance :: "PerformanceInstructionSet \<Rightarrow> thrown + jsval"

record AudioGenerator =
  audio_generateAudioPerformance :: "PerformanceInstructionSet \<Rightarrow> thrown + jsval"

record AnimationGenerator =
  animation_generateAnimationPerformance :: "PerformanceInstructionSet \<Rightarrow> thrown + jsval"

record SynchronizationEngine =
  engine_synchronizeOutputs :: "jsval \<Rightarrow> jsval \<Rightarrow> jsval \<Rightarrow> thrown + SynchronizedPerformance"

record MultimodalPerformanceSynthesizerCore =
  characterModel :: CharacterModel
  visualGenerator :: VisualGenerator
  audioGenerator :: AudioGenerator
  animationGenerator :: AnimationGenerator
  synchronizationEngine :: SynchronizationEngine
  qualityAssurance :: jsval
  consistencyEngine :: jsval

section \<open>The synthesizer\<close>

subsection \<open>Utility methods\<close>

definition extractBaseAppearance :: "UnifiedCharacterOntology \<Rightarrow> jsval" where
  "extractBaseAppearance ontology =
     JObj [(''face'', JObj []), (''body'', JObj []), (''clothing'', JObj []),
           (''accessories'', JArr []), (''hair'', JObj []), (''skin'', JObj []),
           (''eyes'', JObj []), (''mouth'', JObj []), (''nose'', JObj []),
           (''overall_style'', JObj [])]"

text \<open>\<^verbatim>\<open>ontology.voiceIdentity?.voiceType || 'neutral'\<close>: the default stands in when the
  identity is absent and when the string is empty (the empty string is falsy). An array
  is truthy even when empty, so \<^verbatim>\<open>speechPatterns || []\<close> only covers absence.\<close>

definition or_neutral :: "string option \<Rightarrow> string" where
  "or_neutral s = (case s of None \<Rightarrow> ''neutral'' | Some t \<Rightarrow> if t = [] then ''neutral'' else t)"

definition extractBaseVoice :: "UnifiedCharacterOntology \<Rightarrow> jsval" where
  "extractBaseVoice ontology =
     JObj [(''timbre'', JStr (or_neutral (map_option voiceType (voiceIdentity ontology)))),
           (''pitch'', JNum (5 / 10)),
           (''tempo'', JNum (5 / 10)),
           (''accent'', JStr (or_neutral (map_option accent (voiceIdentity ontology)))),
           (''speech_patterns'',
              JArr (case voiceIdentity ontology of
                      None \<Rightarrow> []
                    | Some v \<Rightarrow> map JStr (speechPatterns v))),
           (''vocal_habits'', JArr []),
           (''emotional_range'', JObj []),
           (''age_characteristics'', JObj []),
           (''gender_characteristics'', JObj [])]"

definition extractBaseAnimation :: "UnifiedCharacterOntology \<Rightarrow> jsval" where
  "extractBaseAnimation ontology =
     JObj [(''base_pose'', JObj []), (''movement_style'', JObj []),
           (''gesture_library'', JObj []), (''facial_expressions'', JObj []),
           (''body_language'', JObj []), (''walking_style'', JObj []),
           (''sitting_style'', JObj []), (''standing_style'', JObj []),
           (''emotional_animation'', JObj [])]"

definition generateVideoOutput :: "SynchronizedPerformance \<Rightarrow> jsval" where
  "generateVideoOutput synchronized =
     JObj [(''format'', JStr ''mp4''), (''quality'', JStr ''high''), (''duration'', JNum 0)]"

definition generateAudioOutput :: "SynchronizedPerformance \<Rightarrow> jsval" where
  "generateAudioOutput synchronized =
     JObj [(''format'', JStr ''wav''), (''quality'', JStr ''high''), (''duration'', JNum 0)]"

definition generateAnimationOutput :: "SynchronizedPerformance \<Rightarrow> jsval" where
  "generateAnimationOutput synchronized =
     JObj [(''format'', JStr ''fbx''), (''quality'', JStr ''high''), (''duration'', JNum 0)]"

text \<open>The reports and the inner metadata are \<^verbatim>\<open>Record<string, any>\<close>; a scorecard
  stored in one is the object its literal wrote.\<close>

definition js_of_QualityMetrics :: "QualityMetrics \<Rightarrow> jsval" where
  "js_of_QualityMetrics q =
     JObj [(''visual_quality'', visual_quality q), (''audio_quality'', audio_quality q),
           (''animation_quality'', animation_quality q),
           (''synchronization_quality'', synchronization_quality q),
           (''overall_quality'', JNum (overall_quality q)),
           (''performance_quality'', JNum (performance_quality q))]"

definition js_of_ConsistencyCheck :: "ConsistencyCheck \<Rightarrow> jsval" where
  "js_of_ConsistencyCheck c =
     JObj [(''character_consistency'', character_consistency c),
           (''emotional_consistency'', emotional_consistency c),
           (''performance_consistency'', performance_consistency c),
           (''visual_consistency'', visual_consistency c),
           (''audio_consistency'', audio_consistency c),
           (''animation_consistency'', animation_consistency c),
           (''overall_consistency'', JNum (overall_consistency c))]"

definition generatePerformanceMetadata ::
  "int \<Rightarrow> SynchronizedPerformance \<Rightarrow> QualityMetrics \<Rightarrow> ConsistencyCheck \<Rightarrow> jsval" where
  "generatePerformanceMetadata now synchronized qualityCheck consistencyCheck =
     JObj [(''generation_time'', JNum (of_int now)),
           (''quality_score'', JNum (overall_quality qualityCheck)),
           (''consistency_score'', JNum (overall_consistency consistencyCheck)),
           (''models_used'', JArr [JStr ''flux-pro'', JStr ''elevenlabs-v2'', JStr ''runwayml-gen3''])]"

definition generateQualityReport :: "QualityMetrics \<Rightarrow> jsval" where
  "generateQualityReport qualityCheck =
     JObj [(''overall_score'', JNum (overall_quality qualityCheck)),
           (''recommendations'',
              JArr [JStr ''Optimize lighting for better visual quality'',
                    JStr ''Improve audio clarity in noisy sections'']),
           (''metrics'', js_of_QualityMetrics qualityCheck)]"

definition generateConsistencyReport :: "ConsistencyCheck \<Rightarrow> jsval" where
  "generateConsistencyReport consistencyCheck =
     JObj [(''overall_score'', JNum (overall_consistency consistencyCheck)),
           (''recommendations'',
              JArr [JStr ''Maintain character appearance consistency'',
                    JStr ''Improve emotional alignment across modalities'']),
           (''metrics'', js_of_ConsistencyCheck consistencyCheck)]"

subsection \<open>Initialization methods and the constructor\<close>

definition initializeCharacterModel :: "UnifiedCharacterOntology \<Rightarrow> CharacterModel" where
  "initializeCharacterModel ontology =
     \<lparr> baseAppearance = extractBaseAppearance ontology,
       baseVoice = extractBaseVoice ontology,
       baseAnimation = extractBaseAnimation ontology,
       emotionalModifications = JObj [],
       performanceModifications = JObj [],
       consistencyParameters = JObj [] \<rparr>"

text \<open>The three generators the constructor installs: each returns a fixed literal and
  reads neither the ontology nor the instructions.\<close>

definition mock_generateVisualPerformance :: "PerformanceInstructionSet \<Rightarrow> jsval" where
  "mock_generateVisualPerformance instructions =
     JObj [(''images'',
              JArr [JObj [(''url'', JStr ''''), (''format'', JStr ''png''),
                          (''resolution'', JStr ''2048x2048''), (''style'', JStr ''realistic''),
                          (''prompt'', JStr ''''), (''model'', JStr ''flux-pro'')]]),
           (''quality'',
              JObj [(''overall'', JNum (96 / 100)), (''detail'', JNum (95 / 100)),
                    (''consistency'', JNum (94 / 100)), (''realism'', JNum (97 / 100)),
                    (''artisticValue'', JNum (93 / 100))]),
           (''consistency'',
              JObj [(''facialSimilarity'', JNum (95 / 100)), (''styleSimilarity'', JNum (93 / 100)),
                    (''colorConsistency'', JNum (94 / 100)),
                    (''proportionConsistency'', JNum (96 / 100))])]"

definition mock_generateAudioPerformance :: "PerformanceInstructionSet \<Rightarrow> jsval" where
  "mock_generateAudioPerformance instructions =
     JObj [(''audioFiles'',
              JArr [JObj [(''url'', JStr ''''), (''format'', JStr ''wav''), (''duration'', JNum 0),
                          (''model'', JStr ''elevenlabs-v2''), (''voice'', JStr ''default'')]]),
           (''quality'',
              JObj [(''overall'', JNum (94 / 100)), (''detail'', JNum (93 / 100)),
                    (''consistency'', JNum (92 / 100)), (''realism'', JNum (95 / 100)),
                    (''artisticValue'', JNum (91 / 100))]),
           (''voiceConsistency'', JNum (93 / 100))]"

definition mock_generateAnimationPerformance :: "PerformanceInstructionSet \<Rightarrow> jsval" where
  "mock_generateAnimationPerformance instructions =
     JObj [(''animations'',
              JArr [JObj [(''url'', JStr ''''), (''format'', JStr ''mp4''), (''duration'', JNum 0),
                          (''frameRate'', JNum 60), (''model'', JStr ''runwayml-gen3'')]]),
           (''motionData'',
              JArr [JObj [(''joints'', JArr []), (''timing'', JArr []),
                          (''interpolation'', JStr ''linear'')]]),
           (''quality'',
              JObj [(''overall'', JNum (92 / 100)), (''detail'', JNum (91 / 100)),
                    (''consistency'', JNum (90 / 100)), (''realism'', JNum (93 / 100)),
                    (''artisticValue'', JNum (89 / 100))])]"

definition initializeVisualGenerator :: "UnifiedCharacterOntology \<Rightarrow> VisualGenerator" where
  "initializeVisualGenerator ontology =
     \<lparr> visual_generateVisualPerformance = (\<lambda>instructions. Inr (mock_generateVisualPerformance instructions)) \<rparr>"

definition initializeAudioGenerator :: "UnifiedCharacterOntology \<Rightarrow> AudioGenerator" where
  "initializeAudioGenerator ontology =
     \<lparr> audio_generateAudioPerformance = (\<lambda>instructions. Inr (mock_generateAudioPerformance instructions)) \<rparr>"

definition initializeAnimationGenerator :: "UnifiedCharacterOntology \<Rightarrow> AnimationGenerator" where
  "initializeAnimationGenerator ontology =
     \<lparr> animation_generateAnimationPerformance =
         (\<lambda>instructions. Inr (mock_generateAnimationPerformance instructions)) \<rparr>"

text \<open>\<^verbatim>\<open>synchronizeOutputs\<close> of the engine the constructor installs: one object literal,
  with no branch and no \<^verbatim>\<open>throw\<close>.\<close>

definition synchronizeOutputs :: "jsval \<Rightarrow> jsval \<Rightarrow> jsval \<Rightarrow> SynchronizedPerformance" where
  "synchronizeOutputs visual_in audio_in animation_in =
     \<lparr> visual = visual_in,
       audio = audio_in,
       animation = animation_in,
       synchronization =
         \<lparr> sync_points = [], timing_alignment = JObj [], emotional_alignment = JObj [],
           performance_alignment = JObj [], quality_alignment = JObj [],
           consistency_alignment = JObj [] \<rparr>,
       quality_metrics =
         \<lparr> visual_quality = JObj [], audio_quality = JObj [], animation_quality = JObj [],
           synchronization_quality = JObj [], overall_quality = 93 / 100,
           performance_quality = 94 / 100 \<rparr>,
       consistency_check =
         \<lparr> character_consistency = JObj [], emotional_consistency = JObj [],
           performance_consistency = JObj [], visual_consistency = JObj [],
           audio_consistency = JObj [], animation_consistency = JObj [],
           overall_consistency = 91 / 100 \<rparr>,
       final_output = JObj [] \<rparr>"

definition initializeSynchronizationEngine :: SynchronizationEngine where
  "initializeSynchronizationEngine =
     \<lparr> engine_synchronizeOutputs =
         (\<lambda>visual_in audio_in animation_in. Inr (synchronizeOutputs visual_in audio_in animation_in)) \<rparr>"

definition initializeQualityAssurance :: jsval where
  "initializeQualityAssurance = JObj []"

definition initializeConsistencyEngine :: jsval where
  "initializeConsistencyEngine = JObj []"

text \<open>The constructor, and the factory function that only calls it.\<close>

definition new_MultimodalPerformanceSynthesizerCore ::
  "UnifiedCharacterOntology \<Rightarrow> MultimodalPerformanceSynthesizerCore" where
  "new_MultimodalPerformanceSynthesizerCore characterOntology =
     \<lparr> characterModel = initializeCharacterModel characterOntology,
       visualGenerator = initializeVisualGenerator characterOntology,
       audioGenerator = initializeAudioGenerator characterOntology,
       animationGenerator = initializeAnimationGenerator characterOntology,
       synchronizationEngine = initializeSynchronizationEngine,
       qualityAssurance = initializeQualityAssurance,
       consistencyEngine = initializeConsistencyEngine \<rparr>"

definition createMultimodalPerformanceSynthesizer ::
  "UnifiedCharacterOntology \<Rightarrow> MultimodalPerformanceSynthesizerCore" where
  "createMultimodalPerformanceSynthesizer characterOntology =
     new_MultimodalPerformanceSynthesizerCore characterOntology"

subsection \<open>Performance generation and validation methods\<close>

text \<open>Instance methods take the synthesizer (\<^verbatim>\<open>this\<close>) first.\<close>

definition generateVisualPerformance ::
  "MultimodalPerformanceSynthesizerCore \<Rightarrow> PerformanceInstructionSet \<Rightarrow> thrown + jsval" where
  "generateVisualPerformance this instructions =
     visual_generateVisualPerformance (visualGenerator this) instructions"

definition generateAudioPerformance ::
  "MultimodalPerformanceSynthesizerCore \<Rightarrow> PerformanceInstructionSet \<Rightarrow> thrown + jsval" where
  "generateAudioPerformance this instructions =
     audio_generateAudioPerformance (audioGenerator this) instructions"

definition generateAnimationPerformance ::
  "MultimodalPerformanceSynthesizerCore \<Rightarrow> PerformanceInstructionSet \<Rightarrow> thrown + jsval" where
  "generateAnimationPerformance this instructions =
     animation_generateAnimationPerformance (animationGenerator this) instructions"

definition validateQuality ::
  "MultimodalPerformanceSynthesizerCore \<Rightarrow> SynchronizedPerformance \<Rightarrow> QualityMetrics" where
  "validateQuality this synchronized =
     \<lparr> visual_quality =
         JObj [(''overall'', JNum (96 / 100)), (''detail'', JNum (95 / 100)),
               (''consistency'', JNum (94 / 100))],
       audio_quality =
         JObj [(''overall'', JNum (94 / 100)), (''clarity'', JNum (95 / 100)),
               (''consistency'', JNum (93 / 100))],
       animation_quality =
         JObj [(''overall'', JNum (92 / 100)), (''fluidity'', JNum (91 / 100)),
               (''consistency'', JNum (90 / 100))],
       synchronization_quality =
         JObj [(''overall'', JNum (90 / 100)), (''timing'', JNum (89 / 100)),
               (''alignment'', JNum (91 / 100))],
       overall_quality = 93 / 100,
       performance_quality = 94 / 100 \<rparr>"

definition validateConsistency ::
  "MultimodalPerformanceSynthesizerCore \<Rightarrow> SynchronizedPerformance \<Rightarrow> ConsistencyCheck" where
  "validateConsistency this synchronized =
     \<lparr> character_consistency =
         JObj [(''visual'', JNum (95 / 100)), (''audio'', JNum (93 / 100)),
               (''animation'', JNum (91 / 100))],
       emotional_consistency =
         JObj [(''cross_modal'', JNum (92 / 100)), (''temporal'', JNum (90 / 100))],
       performance_consistency =
         JObj [(''behavioral'', JNum (89 / 100)), (''psychological'', JNum (91 / 100))],
       visual_consistency =
         JObj [(''appearance'', JNum (95 / 100)), (''style'', JNum (93 / 100))],
       audio_consistency =
         JObj [(''voice'', JNum (94 / 100)), (''speech'', JNum (92 / 100))],
       animation_consistency =
         JObj [(''movement'', JNum (90 / 100)), (''expression'', JNum (88 / 100))],
       overall_consistency = 91 / 100 \<rparr>"

definition generateFinalPerformance ::
  "MultimodalPerformanceSynthesizerCore \<Rightarrow> int \<Rightarrow> SynchronizedPerformance \<Rightarrow> QualityMetrics
     \<Rightarrow> ConsistencyCheck \<Rightarrow> jsval" where
  "generateFinalPerformance this now synchronized qualityCheck consistencyCheck =
     JObj [(''video'', generateVideoOutput synchronized),
           (''audio'', generateAudioOutput synchronized),
           (''animation'', generateAnimationOutput synchronized),
           (''metadata'', generatePerformanceMetadata now synchronized qualityCheck consistencyCheck),
           (''quality_report'', generateQualityReport qualityCheck),
           (''consistency_report'', generateConsistencyReport consistencyCheck)]"

subsection \<open>The synthesis pipeline\<close>

text \<open>
  \<^verbatim>\<open>synthesizePerformance\<close>. The three generator calls are made in the order visual,
  audio, animation while the argument of \<^verbatim>\<open>Promise.all\<close> is built, and
  \<^verbatim>\<open>Promise.all\<close> rejects with the first rejection in that order. Whatever is thrown
  inside the \<^verbatim>\<open>try\<close> is caught and rethrown as one \<^verbatim>\<open>Error\<close> whose message
  interpolates it. The final performance of phase 4 is computed and not returned. The
  line written to the console in the \<^verbatim>\<open>catch\<close> block is not part of the result and is
  left out.
\<close>

definition synthesis_failed :: "thrown \<Rightarrow> js_error + SynthesizedPerformance" where
  "synthesis_failed e = Inl (Error (''Performance synthesis failed: '' @ e))"

definition synthesizePerformance ::
  "MultimodalPerformanceSynthesizerCore \<Rightarrow> clock \<Rightarrow> PerformanceInstructionSet
     \<Rightarrow> js_error + SynthesizedPerformance" where
  "synthesizePerformance this clk instructions =
     (let visualResult = generateVisualPerformance this instructions;
          audioResult = generateAudioPerformance this instructions;
          animationResult = generateAnimationPerformance this instructions
      in case visualResult of
           Inl e \<Rightarrow> synthesis_failed e
         | Inr visualOutput \<Rightarrow>
       (case audioResult of
           Inl e \<Rightarrow> synthesis_failed e
         | Inr audioOutput \<Rightarrow>
       (case animationResult of
           Inl e \<Rightarrow> synthesis_failed e
         | Inr animationOutput \<Rightarrow>
       (case engine_synchronizeOutputs (synchronizationEngine this)
               visualOutput audioOutput animationOutput of
           Inl e \<Rightarrow> synthesis_failed e
         | Inr synchronizedOutput \<Rightarrow>
             (let qualityCheck = validateQuality this synchronizedOutput;
                  consistencyCheck = validateConsistency this synchronizedOutput;
                  finalPerformance =
                    generateFinalPerformance this (clk 0) synchronizedOutput
                      qualityCheck consistencyCheck
              in Inr \<lparr> perf_characterId = ''temp-id'',
                       perf_timestamp = clk 1,
                       perf_visual = visualOutput,
                       perf_audio = audioOutput,
                       perf_animation = animationOutput,
                       perf_metadata =
                         \<lparr> generationTime = clk 2,
                           modelUsed = ''multimodal-v1'',
                           qualityScore = overall_quality qualityCheck,
                           consistencyScore = overall_consistency consistencyCheck,
                           cost = 5 / 100,
                           version = ''1.0.0'' \<rparr> \<rparr>)))))"

section \<open>Notions of the specification that the source does not declare\<close>

text \<open>Modelled from the spec: the \<^verbatim>\<open>duration\<close> (milliseconds) that section 3 gives every
  modality performance. The source's performance interfaces declare no such field; it is
  read here as the property \<^verbatim>\<open>duration\<close> of the performance object.\<close>

definition duration_of :: "jsval \<Rightarrow> real option" where
  "duration_of p = (case js_get p ''duration'' of Some (JNum d) \<Rightarrow> Some d | _ \<Rightarrow> None)"

text \<open>Modelled from the spec: the divergence test of section 4.3, "no modality's duration
  may differ from the longest by more than" the tolerance (a fraction of the longest;
  default \<open>15 / 100\<close>). The source has no tolerance and no such test.\<close>

definition syncTolerance_default :: real where
  "syncTolerance_default = 15 / 100"

definition durations_diverge :: "real \<Rightarrow> real \<Rightarrow> real \<Rightarrow> real \<Rightarrow> bool" where
  "durations_diverge tol dv da dn =
     (let longest = max dv (max da dn)
      in longest - dv > tol * longest \<or> longest - da > tol * longest
         \<or> longest - dn > tol * longest)"

text \<open>Modelled from the spec: the default cross-modal formula of section 4.5,
  \<open>1 - |reported - requested| / 100\<close>. The source has no such computation.\<close>

definition spec_cross_modal :: "real \<Rightarrow> real \<Rightarrow> real" where
  "spec_cross_modal reported requested = 1 - \<bar>reported - requested\<bar> / 100"

text \<open>Modelled from the spec: the configuration surface of section 6, of which the
  source declares nothing: the quality weights with their sum, and the default quality
  threshold.\<close>

record qualityWeights =
  weight_visual :: real
  weight_audio :: real
  weight_animation :: real
  weight_sync :: real

definition weights_sum :: "qualityWeights \<Rightarrow> real" where
  "weights_sum w = weight_visual w + weight_audio w + weight_animation w + weight_sync w"

definition qualityMinThreshold_default :: real where
  "qualityMinThreshold_default = 75 / 100"

section \<open>Concrete inputs\<close>

definition example_ontology :: UnifiedCharacterOntology where
  "example_ontology =
     \<lparr> ontology_id = ''char-A'', ontology_version = ''1'', createdAt = 0, updatedAt = 0,
       coreIdentity = JObj [], psychologicalProfile = JObj [], visualIdentity = JObj [],
       voiceIdentity = None, behavioralPatterns = JObj [], emotionalProfile = JObj [],
       relationships = [], backstory = JObj [], skillsAndAbilities = JObj [] \<rparr>"

definition example_instructions :: "string \<Rightarrow> real \<Rightarrow> PerformanceInstructionSet" where
  "example_instructions cid requested =
     \<lparr> characterId = cid, sceneContext = JObj [],
       emotionalState =
         \<lparr> primary = ''joy'', secondary = [], intensity = requested, triggers = [],
           physicalManifestations = [] \<rparr>,
       physicalState = JObj [], motivations = [], objectives = [], actions = [],
       dialogue = [], visualInstructions = [], audioInstructions = [] \<rparr>"

definition example_clock :: clock where
  "example_clock k = 1700000000000 + int k"

definition example_core :: MultimodalPerformanceSynthesizerCore where
  "example_core = createMultimodalPerformanceSynthesizer example_ontology"

definition example_visual :: jsval where
  "example_visual = mock_generateVisualPerformance (example_instructions ''char-B'' 50)"

definition example_audio :: jsval where
  "example_audio = mock_generateAudioPerformance (example_instructions ''char-B'' 50)"

definition example_animation :: jsval where
  "example_animation = mock_generateAnimationPerformance (example_instructions ''char-B'' 50)"

text \<open>A synchronization engine that reports an aggregate quality of \<open>0.70\<close> in the
  synchronized performance, and a synthesizer whose engine field has been set to it.\<close>

definition synchronized70 :: "jsval \<Rightarrow> jsval \<Rightarrow> jsval \<Rightarrow> SynchronizedPerformance" where
  "synchronized70 v a n =
     (synchronizeOutputs v a n)
       \<lparr> quality_metrics :=
           (quality_metrics (synchronizeOutputs v a n)) \<lparr> overall_quality := 70 / 100 \<rparr> \<rparr>"

definition engine70 :: SynchronizationEngine where
  "engine70 = \<lparr> engine_synchronizeOutputs = (\<lambda>v a n. Inr (synchronized70 v a n)) \<rparr>"

definition core70 :: MultimodalPerformanceSynthesizerCore where
  "core70 = example_core \<lparr> synchronizationEngine := engine70 \<rparr>"

text \<open>Performances that carry a duration, and quality weights that sum to \<open>0.9\<close>.\<close>

definition performance_lasting :: "real \<Rightarrow> jsval" where
  "performance_lasting d = JObj [(''duration'', JNum d)]"

definition weights09 :: qualityWeights where
  "weights09 =
     \<lparr> weight_visual = 3 / 10, weight_audio = 3 / 10, weight_animation = 2 / 10,
       weight_sync = 1 / 10 \<rparr>"

text \<open>A synthesizer built from the example character whose three generators have been
  set to ones that return performances lasting 1000, 1000 and 1100 ms: all three succeed
  and the durations lie within the default tolerance of the longest.\<close>

definition timed_core :: MultimodalPerformanceSynthesizerCore where
  "timed_core =
     example_core
       \<lparr> visualGenerator :=
           \<lparr> visual_generateVisualPerformance = (\<lambda>instructions. Inr (performance_lasting 1000)) \<rparr>,
         audioGenerator :=
           \<lparr> audio_generateAudioPerformance = (\<lambda>instructions. Inr (performance_lasting 1000)) \<rparr>,
         animationGenerator :=
           \<lparr> animation_generateAnimationPerformance =
               (\<lambda>instructions. Inr (performance_lasting 1100)) \<rparr> \<rparr>"

section \<open>Properties\<close>

subsection \<open>What a run of the pipeline returns\<close>

lemma synthesizePerformance_returns:
  assumes "visual_generateVisualPerformance (visualGenerator this) instructions = Inr v"
    and "audio_generateAudioPerformance (audioGenerator this) instructions = Inr a"
    and "animation_generateAnimationPerformance (animationGenerator this) instructions = Inr n"
    and "engine_synchronizeOutputs (synchronizationEngine this) v a n = Inr s"
  shows "synthesizePerformance this clk instructions =
     Inr \<lparr> perf_characterId = ''temp-id'', perf_timestamp = clk 1, perf_visual = v,
           perf_audio = a, perf_animation = n,
           perf_metadata =
             \<lparr> generationTime = clk 2, modelUsed = ''multimodal-v1'', qualityScore = 93 / 100,
               consistencyScore = 91 / 100, cost = 5 / 100, version = ''1.0.0'' \<rparr> \<rparr>"
  using assms
  by (simp add: synthesizePerformance_def generateVisualPerformance_def
      generateAudioPerformance_def generateAnimationPerformance_def
      validateQuality_def validateConsistency_def Let_def)

lemma constructed_generators:
  "visual_generateVisualPerformance (visualGenerator (createMultimodalPerformanceSynthesizer ont)) i
     = Inr (mock_generateVisualPerformance i)"
  "audio_generateAudioPerformance (audioGenerator (createMultimodalPerformanceSynthesizer ont)) i
     = Inr (mock_generateAudioPerformance i)"
  "animation_generateAnimationPerformance (animationGenerator (createMultimodalPerformanceSynthesizer ont)) i
     = Inr (mock_generateAnimationPerformance i)"
  "engine_synchronizeOutputs (synchronizationEngine (createMultimodalPerformanceSynthesizer ont)) v a n
     = Inr (synchronizeOutputs v a n)"
  by (simp_all add: createMultimodalPerformanceSynthesizer_def
      new_MultimodalPerformanceSynthesizerCore_def initializeVisualGenerator_def
      initializeAudioGenerator_def initializeAnimationGenerator_def
      initializeSynchronizationEngine_def)

lemma synthesizePerformance_constructed:
  "synthesizePerformance (createMultimodalPerformanceSynthesizer ont) clk instructions =
     Inr \<lparr> perf_characterId = ''temp-id'', perf_timestamp = clk 1,
           perf_visual = mock_generateVisualPerformance instructions,
           perf_audio = mock_generateAudioPerformance instructions,
           perf_animation = mock_generateAnimationPerformance instructions,
           perf_metadata =
             \<lparr> generationTime = clk 2, modelUsed = ''multimodal-v1'', qualityScore = 93 / 100,
               consistencyScore = 91 / 100, cost = 5 / 100, version = ''1.0.0'' \<rparr> \<rparr>"
  by (rule synthesizePerformance_returns) (rule constructed_generators)+

lemma synthesizePerformance_throws:
  "visual_generateVisualPerformance (visualGenerator this) instructions = Inl e
   \<Longrightarrow> synthesizePerformance this clk instructions
         = Inl (Error (''Performance synthesis failed: '' @ e))"
  by (simp add: synthesizePerformance_def generateVisualPerformance_def synthesis_failed_def
      Let_def)

subsection \<open>The synchronization engine\<close>


text \<open>
  C9. For every triple of modality performances, the synchronized performance that
  \<^verbatim>\<open>synchronizeOutputs\<close> returns holds the three inputs unchanged in its
  \<^verbatim>\<open>visual\<close>, \<^verbatim>\<open>audio\<close> and \<^verbatim>\<open>animation\<close> fields.
\<close>

theorem synchronizeOutputs_keeps_inputs:
  "visual (synchronizeOutputs v a n) = v
   \<and> audio (synchronizeOutputs v a n) = a
   \<and> animation (synchronizeOutputs v a n) = n"
  by (simp add: synchronizeOutputs_def)


text \<open>
  C3 (as amended). \<^verbatim>\<open>synchronizeOutputs\<close> has no duration test, no tolerance and no
  failure path: for every triple of modality performances, whatever their durations, the
  engine the constructor installs returns a synchronized performance and throws nothing.
\<close>

theorem synchronizeOutputs_never_fails:
  "engine_synchronizeOutputs initializeSynchronizationEngine v a n = Inr (synchronizeOutputs v a n)
   \<and> engine_synchronizeOutputs
         (synchronizationEngine (createMultimodalPerformanceSynthesizer ont)) v a n
       = Inr (synchronizeOutputs v a n)"
  by (simp add: initializeSynchronizationEngine_def createMultimodalPerformanceSynthesizer_def
      new_MultimodalPerformanceSynthesizerCore_def)

text \<open>
  C3 as stated fails. With visual and audio lasting 1000 ms and the animation 1200 ms
  (1.20 times the longer of the other two) the durations diverge beyond the default
  tolerance, yet the engine returns a synchronized performance, exactly as it does at
  1100 ms (1.10 times), where they do not diverge.
\<close>

theorem synchronizeOutputs_divergence_counterexample:
  "duration_of (performance_lasting 1000) = Some 1000
   \<and> duration_of (performance_lasting 1200) = Some (12 / 10 * max 1000 1000)
   \<and> durations_diverge syncTolerance_default 1000 1000 1200
   \<and> engine_synchronizeOutputs initializeSynchronizationEngine
         (performance_lasting 1000) (performance_lasting 1000) (performance_lasting 1200)
       = Inr (synchronizeOutputs
               (performance_lasting 1000) (performance_lasting 1000) (performance_lasting 1200))
   \<and> duration_of (performance_lasting 1100) = Some (11 / 10 * max 1000 1000)
   \<and> \<not> durations_diverge syncTolerance_default 1000 1000 1100
   \<and> engine_synchronizeOutputs initializeSynchronizationEngine
         (performance_lasting 1000) (performance_lasting 1000) (performance_lasting 1100)
       = Inr (synchronizeOutputs
               (performance_lasting 1000) (performance_lasting 1000) (performance_lasting 1100))"
  by (simp add: duration_of_def performance_lasting_def durations_diverge_def
      syncTolerance_default_def initializeSynchronizationEngine_def Let_def)

text \<open>
  C2 (as amended). For every triple of modality performances, the \<^verbatim>\<open>sync_points\<close> list
  of the synchronized performance that \<^verbatim>\<open>synchronizeOutputs\<close> returns is empty; it is
  therefore strictly increasing in \<^verbatim>\<open>timestamp\<close>, with no two points sharing one.
\<close>

theorem sync_points_empty_and_increasing:
  "sync_points (synchronization (synchronizeOutputs v a n)) = []
   \<and> sorted_wrt (<) (map timestamp (sync_points (synchronization (synchronizeOutputs v a n))))"
  by (simp add: synchronizeOutputs_def)

text \<open>
  C2 as stated fails, on an input inside its hypotheses. The instructions name the
  character the synthesizer was constructed from; the three generators succeed, with
  durations 1000, 1000 and 1100 ms that do not diverge beyond the default tolerance; the
  engine synchronizes them and the run returns a performance. The synchronized
  performance of that run has no sync point at all.
\<close>

theorem sync_points_nonempty_counterexample:
  "characterId (example_instructions ''char-A'' 50) = ontology_id example_ontology
   \<and> visual_generateVisualPerformance (visualGenerator timed_core)
       (example_instructions ''char-A'' 50) = Inr (performance_lasting 1000)
   \<and> audio_generateAudioPerformance (audioGenerator timed_core)
       (example_instructions ''char-A'' 50) = Inr (performance_lasting 1000)
   \<and> animation_generateAnimationPerformance (animationGenerator timed_core)
       (example_instructions ''char-A'' 50) = Inr (performance_lasting 1100)
   \<and> duration_of (performance_lasting 1000) = Some 1000
   \<and> duration_of (performance_lasting 1100) = Some 1100
   \<and> \<not> durations_diverge syncTolerance_default 1000 1000 1100
   \<and> engine_synchronizeOutputs (synchronizationEngine timed_core)
         (performance_lasting 1000) (performance_lasting 1000) (performance_lasting 1100)
       = Inr (synchronizeOutputs
               (performance_lasting 1000) (performance_lasting 1000) (performance_lasting 1100))
   \<and> synthesizePerformance timed_core example_clock (example_instructions ''char-A'' 50)
       = Inr \<lparr> perf_characterId = ''temp-id'', perf_timestamp = example_clock 1,
               perf_visual = performance_lasting 1000, perf_audio = performance_lasting 1000,
               perf_animation = performance_lasting 1100,
               perf_metadata =
                 \<lparr> generationTime = example_clock 2, modelUsed = ''multimodal-v1'',
                   qualityScore = 93 / 100, consistencyScore = 91 / 100, cost = 5 / 100,
                   version = ''1.0.0'' \<rparr> \<rparr>
   \<and> sync_points (synchronization
         (synchronizeOutputs
            (performance_lasting 1000) (performance_lasting 1000) (performance_lasting 1100)))
       = []"
proof -
  have engine: "engine_synchronizeOutputs (synchronizationEngine timed_core)
         (performance_lasting 1000) (performance_lasting 1000) (performance_lasting 1100)
       = Inr (synchronizeOutputs
               (performance_lasting 1000) (performance_lasting 1000) (performance_lasting 1100))"
    by (simp add: timed_core_def example_core_def constructed_generators)
  have run: "synthesizePerformance timed_core example_clock (example_instructions ''char-A'' 50)
       = Inr \<lparr> perf_characterId = ''temp-id'', perf_timestamp = example_clock 1,
               perf_visual = performance_lasting 1000, perf_audio = performance_lasting 1000,
               perf_animation = performance_lasting 1100,
               perf_metadata =
                 \<lparr> generationTime = example_clock 2, modelUsed = ''multimodal-v1'',
                   qualityScore = 93 / 100, consistencyScore = 91 / 100, cost = 5 / 100,
                   version = ''1.0.0'' \<rparr> \<rparr>"
    by (rule synthesizePerformance_returns [OF _ _ _ engine]) (simp_all add: timed_core_def)
  have inputs: "characterId (example_instructions ''char-A'' 50) = ontology_id example_ontology"
    by (simp add: example_instructions_def example_ontology_def)
  have durations: "duration_of (performance_lasting 1000) = Some 1000"
    "duration_of (performance_lasting 1100) = Some 1100"
    "\<not> durations_diverge syncTolerance_default 1000 1000 1100"
    by (simp_all add: duration_of_def performance_lasting_def durations_diverge_def
        syncTolerance_default_def Let_def)
  have empty: "sync_points (synchronization
         (synchronizeOutputs
            (performance_lasting 1000) (performance_lasting 1000) (performance_lasting 1100)))
       = []"
    by (simp add: synchronizeOutputs_def)
  show ?thesis
    unfolding run engine
    using inputs durations empty by (simp add: timed_core_def)
qed

subsection \<open>The validators\<close>

text \<open>
  C5. Scoring is a function of nothing that can change between two calls: on the same
  synchronized performance, \<^verbatim>\<open>validateQuality\<close> returns identical quality metrics and
  \<^verbatim>\<open>validateConsistency\<close> identical consistency scorecards, whatever state the
  synthesizer is in at either call (neither method reads \<^verbatim>\<open>this\<close> or the clock).
\<close>

theorem validators_deterministic:
  "validateQuality this1 s = validateQuality this2 s
   \<and> validateConsistency this1 s = validateConsistency this2 s"
  by (simp add: validateQuality_def validateConsistency_def)

text \<open>
  C10. The validators' outputs are constant: for any two synchronized performances
  \<^verbatim>\<open>validateQuality\<close> returns the same scorecard, whose \<^verbatim>\<open>overall_quality\<close> is 0.93,
  and \<^verbatim>\<open>validateConsistency\<close> returns the same scorecard, whose
  \<^verbatim>\<open>overall_consistency\<close> is 0.91.
\<close>

theorem validators_constant:
  "validateQuality this1 s1 = validateQuality this2 s2
   \<and> overall_quality (validateQuality this1 s1) = 93 / 100
   \<and> validateConsistency this1 s1 = validateConsistency this2 s2
   \<and> overall_consistency (validateConsistency this1 s1) = 91 / 100"
  by (simp add: validateQuality_def validateConsistency_def)

text \<open>
  C6 (as amended). For every synchronized performance, the
  \<^verbatim>\<open>emotional_consistency.cross_modal\<close> score of \<^verbatim>\<open>validateConsistency\<close> is the
  constant 0.92: the method is given no instruction set, so the score does not depend on
  the requested intensity.
\<close>

theorem cross_modal_constant:
  "js_get (emotional_consistency (validateConsistency this s)) ''cross_modal''
     = Some (JNum (92 / 100))"
  by (simp add: validateConsistency_def)

text \<open>
  C6 as stated fails. For the synchronized performance of the example run there is no
  reported intensity for which the score equals \<open>1 - |reported - requested| / 100\<close>
  at every requested intensity: the requests 0 and 100 already exclude each one.
\<close>

theorem cross_modal_formula_counterexample:
  "\<not> (\<exists>reported. \<forall>instructions::PerformanceInstructionSet.
        js_get (emotional_consistency
                  (validateConsistency example_core
                     (synchronizeOutputs example_visual example_audio example_animation)))
               ''cross_modal''
          = Some (JNum (spec_cross_modal reported (intensity (emotionalState instructions)))))"
proof
  assume "\<exists>reported. \<forall>instructions::PerformanceInstructionSet.
        js_get (emotional_consistency
                  (validateConsistency example_core
                     (synchronizeOutputs example_visual example_audio example_animation)))
               ''cross_modal''
          = Some (JNum (spec_cross_modal reported (intensity (emotionalState instructions))))"
  then obtain r where all: "\<forall>instructions::PerformanceInstructionSet.
        js_get (emotional_consistency
                  (validateConsistency example_core
                     (synchronizeOutputs example_visual example_audio example_animation)))
               ''cross_modal''
          = Some (JNum (spec_cross_modal r (intensity (emotionalState instructions))))"
    by blast
  have low: "spec_cross_modal r 0 = 92 / 100"
    using all [rule_format, of "example_instructions ''char-A'' 0"]
    by (simp add: validateConsistency_def example_instructions_def)
  have high: "spec_cross_modal r 100 = 92 / 100"
    using all [rule_format, of "example_instructions ''char-A'' 100"]
    by (simp add: validateConsistency_def example_instructions_def)
  from low have "\<bar>r\<bar> = 8" by (simp add: spec_cross_modal_def)
  moreover from high have "\<bar>r - 100\<bar> = 8" by (simp add: spec_cross_modal_def)
  ultimately show False by linarith
qed

subsection \<open>The orchestrator\<close>

text \<open>
  C1 (as amended). \<^verbatim>\<open>synthesizePerformance\<close> applies no quality gate. Whenever the
  three generators and the synchronization engine return, it returns a performance whose
  \<^verbatim>\<open>metadata.qualityScore\<close> is 0.93, the constant \<^verbatim>\<open>overall_quality\<close> of
  \<^verbatim>\<open>validateQuality\<close>, whatever scores the synchronized performance carries and
  whatever threshold is wanted.
\<close>

theorem synthesizePerformance_no_quality_gate:
  assumes "visual_generateVisualPerformance (visualGenerator this) instructions = Inr v"
    and "audio_generateAudioPerformance (audioGenerator this) instructions = Inr a"
    and "animation_generateAnimationPerformance (animationGenerator this) instructions = Inr n"
    and "engine_synchronizeOutputs (synchronizationEngine this) v a n = Inr s"
  shows "\<exists>p. synthesizePerformance this clk instructions = Inr p
           \<and> qualityScore (perf_metadata p) = 93 / 100
           \<and> qualityScore (perf_metadata p) = overall_quality (validateQuality this s)"
  using synthesizePerformance_returns [OF assms, of clk]
  by (simp add: validateQuality_def)

theorem synthesizePerformance_no_quality_gate_witness:
  "visual_generateVisualPerformance (visualGenerator core70)
       (example_instructions ''char-B'' 50) = Inr example_visual
   \<and> audio_generateAudioPerformance (audioGenerator core70)
       (example_instructions ''char-B'' 50) = Inr example_audio
   \<and> animation_generateAnimationPerformance (animationGenerator core70)
       (example_instructions ''char-B'' 50) = Inr example_animation
   \<and> engine_synchronizeOutputs (synchronizationEngine core70)
         example_visual example_audio example_animation
       = Inr (synchronized70 example_visual example_audio example_animation)
   \<and> (\<exists>p. synthesizePerformance core70 example_clock (example_instructions ''char-B'' 50) = Inr p
           \<and> qualityScore (perf_metadata p) = 93 / 100
           \<and> qualityScore (perf_metadata p)
               = overall_quality (validateQuality core70
                   (synchronized70 example_visual example_audio example_animation)))"
proof -
  have v: "visual_generateVisualPerformance (visualGenerator core70)
       (example_instructions ''char-B'' 50) = Inr example_visual"
    by (simp add: core70_def example_core_def constructed_generators example_visual_def)
  have a: "audio_generateAudioPerformance (audioGenerator core70)
       (example_instructions ''char-B'' 50) = Inr example_audio"
    by (simp add: core70_def example_core_def constructed_generators example_audio_def)
  have n: "animation_generateAnimationPerformance (animationGenerator core70)
       (example_instructions ''char-B'' 50) = Inr example_animation"
    by (simp add: core70_def example_core_def constructed_generators example_animation_def)
  have s: "engine_synchronizeOutputs (synchronizationEngine core70)
         example_visual example_audio example_animation
       = Inr (synchronized70 example_visual example_audio example_animation)"
    by (simp add: core70_def engine70_def)
  from v a n s synthesizePerformance_no_quality_gate [OF v a n s, of example_clock]
  show ?thesis by blast
qed

text \<open>
  C1 as stated fails. The engine of \<open>core70\<close> hands the orchestrator a synchronized
  performance whose aggregate quality is 0.70, below the default threshold 0.75; the
  score \<^verbatim>\<open>validateQuality\<close> gives it, 0.93, is below a configured threshold of 0.95.
  Under either reading the run returns a performance, with quality score 0.93, and no
  error.
\<close>

theorem quality_gate_counterexample:
  "engine_synchronizeOutputs (synchronizationEngine core70)
         example_visual example_audio example_animation
       = Inr (synchronized70 example_visual example_audio example_animation)
   \<and> overall_quality (quality_metrics
         (synchronized70 example_visual example_audio example_animation)) = 70 / 100
   \<and> overall_quality (quality_metrics
         (synchronized70 example_visual example_audio example_animation))
       < qualityMinThreshold_default
   \<and> overall_quality (validateQuality core70
         (synchronized70 example_visual example_audio example_animation)) < 95 / 100
   \<and> synthesizePerformance core70 example_clock (example_instructions ''char-B'' 50)
       = Inr \<lparr> perf_characterId = ''temp-id'', perf_timestamp = example_clock 1,
               perf_visual = example_visual, perf_audio = example_audio,
               perf_animation = example_animation,
               perf_metadata =
                 \<lparr> generationTime = example_clock 2, modelUsed = ''multimodal-v1'',
                   qualityScore = 93 / 100, consistencyScore = 91 / 100, cost = 5 / 100,
                   version = ''1.0.0'' \<rparr> \<rparr>"
proof -
  have run: "synthesizePerformance core70 example_clock (example_instructions ''char-B'' 50)
       = Inr \<lparr> perf_characterId = ''temp-id'', perf_timestamp = example_clock 1,
               perf_visual = example_visual, perf_audio = example_audio,
               perf_animation = example_animation,
               perf_metadata =
                 \<lparr> generationTime = example_clock 2, modelUsed = ''multimodal-v1'',
                   qualityScore = 93 / 100, consistencyScore = 91 / 100, cost = 5 / 100,
                   version = ''1.0.0'' \<rparr> \<rparr>"
    by (rule synthesizePerformance_returns)
      (simp_all add: core70_def engine70_def example_core_def constructed_generators
        example_visual_def example_audio_def example_animation_def)
  show ?thesis
    unfolding run
    by (simp add: core70_def engine70_def synchronized70_def synchronizeOutputs_def
        qualityMinThreshold_default_def validateQuality_def)
qed

text \<open>
  C4 (as amended). \<^verbatim>\<open>synthesizePerformance\<close> never compares
  \<^verbatim>\<open>instructions.characterId\<close> with the character the synthesizer was constructed
  from: on a constructed synthesizer every instruction set, whatever its character id,
  yields a performance, and that performance's \<^verbatim>\<open>characterId\<close> is the fixed string
  \<^verbatim>\<open>temp-id\<close>.
\<close>

theorem synthesizePerformance_ignores_characterId:
  "\<exists>p. synthesizePerformance (createMultimodalPerformanceSynthesizer ont) clk instructions = Inr p
       \<and> perf_characterId p = ''temp-id''"
  by (simp add: synthesizePerformance_constructed)

text \<open>
  C4 as stated fails. The synthesizer is constructed from the character \<^verbatim>\<open>char-A\<close>, the
  instructions name \<^verbatim>\<open>char-B\<close>, and the run returns a performance.
\<close>

theorem mismatched_character_counterexample:
  "ontology_id example_ontology = ''char-A''
   \<and> characterId (example_instructions ''char-B'' 50) = ''char-B''
   \<and> characterId (example_instructions ''char-B'' 50) \<noteq> ontology_id example_ontology
   \<and> example_core = createMultimodalPerformanceSynthesizer example_ontology
   \<and> (\<exists>p. synthesizePerformance example_core example_clock (example_instructions ''char-B'' 50)
            = Inr p)"
  by (simp add: example_ontology_def example_instructions_def example_core_def
      synthesizePerformance_constructed)

text \<open>
  C7 (as amended). The constructor takes the character ontology alone: it reads no
  quality weights, validates no sum and has no failure path. For every ontology the
  synthesizer it returns holds the empty object as its quality assurance and as its
  consistency engine, and accepts synthesis requests: each returns a performance.
\<close>

theorem constructor_validates_no_weights:
  "qualityAssurance (createMultimodalPerformanceSynthesizer ont) = JObj []
   \<and> consistencyEngine (createMultimodalPerformanceSynthesizer ont) = JObj []
   \<and> (\<exists>p. synthesizePerformance (createMultimodalPerformanceSynthesizer ont) clk instructions
            = Inr p)"
proof -
  have "qualityAssurance (createMultimodalPerformanceSynthesizer ont) = JObj []"
    and "consistencyEngine (createMultimodalPerformanceSynthesizer ont) = JObj []"
    by (simp_all add: createMultimodalPerformanceSynthesizer_def
        new_MultimodalPerformanceSynthesizerCore_def initializeQualityAssurance_def
        initializeConsistencyEngine_def)
  moreover have "\<exists>p. synthesizePerformance (createMultimodalPerformanceSynthesizer ont) clk
      instructions = Inr p"
    by (simp add: synthesizePerformance_constructed)
  ultimately show ?thesis by simp
qed

text \<open>
  C7 as stated fails. With quality weights that sum to 0.9 wanted, the constructor, which
  cannot be given them, still returns a synthesizer, and a synthesis run on it starts and
  returns a performance.
\<close>

theorem weight_validation_counterexample:
  "weights_sum weights09 = 9 / 10
   \<and> weights_sum weights09 \<noteq> 1
   \<and> qualityAssurance (createMultimodalPerformanceSynthesizer example_ontology) = JObj []
   \<and> (\<exists>p. synthesizePerformance (createMultimodalPerformanceSynthesizer example_ontology)
              example_clock (example_instructions ''char-A'' 50) = Inr p)"
proof -
  have "weights_sum weights09 = 9 / 10"
    by (simp add: weights_sum_def weights09_def)
  moreover have "qualityAssurance (createMultimodalPerformanceSynthesizer example_ontology) = JObj []"
    by (simp add: createMultimodalPerformanceSynthesizer_def
        new_MultimodalPerformanceSynthesizerCore_def initializeQualityAssurance_def)
  moreover have "\<exists>p. synthesizePerformance (createMultimodalPerformanceSynthesizer example_ontology)
      example_clock (example_instructions ''char-A'' 50) = Inr p"
    by (simp add: synthesizePerformance_constructed)
  ultimately show ?thesis by simp
qed

end
